theory Spec2Isabelle
  imports Main "HOL-Library.Sublist"
begin

section \<open>Text and bytes\<close>

text \<open>
  A Python \<open>str\<close> is a sequence of Unicode code points, a \<open>bytes\<close> object a sequence
  of octets. Code points are natural numbers; octets are HOL characters, which are
  8 bits wide, so that byte literals of the source can be written as string literals.
\<close>

type_synonym codepoint = nat
type_synonym pystr = "codepoint list"
type_synonym bytes = "char list"

definition ustr :: "string \<Rightarrow> pystr" where
  "ustr s = map of_char s"

definition CRLF :: bytes where
  "CRLF = [CHR 0x0D, CHR 0x0A]"

datatype py_error =
    NotImplementedError
  | NameError
  | IndexError
  | AttributeError
  | OSError
  | UnicodeEncodeError
  | UnicodeDecodeError

subsection \<open>\<open>in\<close>, \<open>join\<close>, \<open>split\<close> and indexing\<close>

text \<open>\<open>needle in haystack\<close> on strings: the needle occurs as a contiguous run.\<close>

fun str_contains :: "'a list \<Rightarrow> 'a list \<Rightarrow> bool" where
  "str_contains needle [] = (needle = [])"
| "str_contains needle (c # cs) = (prefix needle (c # cs) \<or> str_contains needle cs)"

text \<open>\<open>sep.join(parts)\<close>.\<close>

fun join :: "'a list \<Rightarrow> 'a list list \<Rightarrow> 'a list" where
  "join sep [] = []"
| "join sep [x] = x"
| "join sep (x # y # ys) = x @ sep @ join sep (y # ys)"

text \<open>
  The characters \<open>str.split()\<close> treats as whitespace (CPython's
  \<open>_PyUnicode_IsWhitespace\<close>).
\<close>

definition py_isspace :: "codepoint \<Rightarrow> bool" where
  "py_isspace c \<longleftrightarrow>
     (0x09 \<le> c \<and> c \<le> 0x0D) \<or> (0x1C \<le> c \<and> c \<le> 0x20) \<or> c = 0x85 \<or> c = 0xA0 \<or>
     c = 0x1680 \<or> (0x2000 \<le> c \<and> c \<le> 0x200A) \<or> c = 0x2028 \<or> c = 0x2029 \<or>
     c = 0x202F \<or> c = 0x205F \<or> c = 0x3000"

text \<open>
  \<open>s.split()\<close> with no argument: the maximal runs of non-whitespace characters, in
  order; runs of whitespace separate them and produce no empty strings. The first
  argument is the token being read.
\<close>

fun split_from :: "pystr \<Rightarrow> pystr \<Rightarrow> pystr list" where
  "split_from cur [] = (if cur = [] then [] else [cur])"
| "split_from cur (c # cs) =
     (if py_isspace c
      then (if cur = [] then split_from [] cs else cur # split_from [] cs)
      else split_from (cur @ [c]) cs)"

definition py_split :: "pystr \<Rightarrow> pystr list" where
  "py_split s = split_from [] s"

text \<open>\<open>xs[i]\<close> for a non-negative index: out of range raises \<open>IndexError\<close>.\<close>

definition getitem :: "'a list \<Rightarrow> nat \<Rightarrow> py_error + 'a" where
  "getitem xs i = (if i < length xs then Inr (xs ! i) else Inl IndexError)"

subsection \<open>UTF-8\<close>

text \<open>The octet with value \<open>n mod 256\<close>, least significant bit first.\<close>

definition byte :: "nat \<Rightarrow> char" where
  "byte n =
     Char (odd n) (odd (n div 2)) (odd (n div 4)) (odd (n div 8))
          (odd (n div 16)) (odd (n div 32)) (odd (n div 64)) (odd (n div 128))"

text \<open>\<open>str.encode()\<close>: strict UTF-8; a surrogate code point cannot be encoded.\<close>

definition utf8_encode_cp :: "codepoint \<Rightarrow> bytes option" where
  "utf8_encode_cp c =
     (if c < 0x80 then Some [byte c]
      else if c < 0x800 then Some [byte (0xC0 + c div 0x40), byte (0x80 + c mod 0x40)]
      else if 0xD800 \<le> c \<and> c \<le> 0xDFFF then None
      else if c < 0x10000 then
        Some [byte (0xE0 + c div 0x1000), byte (0x80 + c div 0x40 mod 0x40),
              byte (0x80 + c mod 0x40)]
      else if c < 0x110000 then
        Some [byte (0xF0 + c div 0x40000), byte (0x80 + c div 0x1000 mod 0x40),
              byte (0x80 + c div 0x40 mod 0x40), byte (0x80 + c mod 0x40)]
      else None)"

fun utf8_encode :: "pystr \<Rightarrow> bytes option" where
  "utf8_encode [] = Some []"
| "utf8_encode (c # cs) =
     (case utf8_encode_cp c of
        None \<Rightarrow> None
      | Some bs \<Rightarrow> (case utf8_encode cs of None \<Rightarrow> None | Some rest \<Rightarrow> Some (bs @ rest)))"

text \<open>
  \<open>bytes.decode('utf8')\<close>: strict UTF-8; truncated sequences, stray continuation
  bytes, overlong forms, surrogates and values above U+10FFFF are errors.
\<close>

definition is_cont :: "char \<Rightarrow> bool" where
  "is_cont b \<longleftrightarrow> 0x80 \<le> (of_char b :: nat) \<and> (of_char b :: nat) < 0xC0"

definition cont_bits :: "char \<Rightarrow> nat" where
  "cont_bits b = of_char b - 0x80"

fun utf8_decode :: "bytes \<Rightarrow> pystr option" where
  "utf8_decode [] = Some []"
| "utf8_decode (b # bs) =
     (if (of_char b :: nat) < 0x80 then
        (case utf8_decode bs of None \<Rightarrow> None | Some s \<Rightarrow> Some (of_char b # s))
      else if (of_char b :: nat) < 0xC2 then None
      else if (of_char b :: nat) < 0xE0 then
        (case bs of
           b1 # r \<Rightarrow>
             if is_cont b1 then
               (case utf8_decode r of
                  None \<Rightarrow> None
                | Some s \<Rightarrow> Some (((of_char b - 0xC0) * 0x40 + cont_bits b1) # s))
             else None
         | _ \<Rightarrow> None)
      else if (of_char b :: nat) < 0xF0 then
        (case bs of
           b1 # b2 # r \<Rightarrow>
             if is_cont b1 \<and> is_cont b2 \<and>
                0x800 \<le> (of_char b - 0xE0) * 0x1000 + cont_bits b1 * 0x40 + cont_bits b2 \<and>
                \<not> (0xD800 \<le> (of_char b - 0xE0) * 0x1000 + cont_bits b1 * 0x40 + cont_bits b2 \<and>
                   (of_char b - 0xE0) * 0x1000 + cont_bits b1 * 0x40 + cont_bits b2 \<le> 0xDFFF)
             then
               (case utf8_decode r of
                  None \<Rightarrow> None
                | Some s \<Rightarrow>
                    Some (((of_char b - 0xE0) * 0x1000 + cont_bits b1 * 0x40 + cont_bits b2) # s))
             else None
         | _ \<Rightarrow> None)
      else if (of_char b :: nat) < 0xF5 then
        (case bs of
           b1 # b2 # b3 # r \<Rightarrow>
             if is_cont b1 \<and> is_cont b2 \<and> is_cont b3 \<and>
                0x10000 \<le> (of_char b - 0xF0) * 0x40000 + cont_bits b1 * 0x1000 +
                            cont_bits b2 * 0x40 + cont_bits b3 \<and>
                (of_char b - 0xF0) * 0x40000 + cont_bits b1 * 0x1000 +
                  cont_bits b2 * 0x40 + cont_bits b3 < 0x110000
             then
               (case utf8_decode r of
                  None \<Rightarrow> None
                | Some s \<Rightarrow>
                    Some (((of_char b - 0xF0) * 0x40000 + cont_bits b1 * 0x1000 +
                            cont_bits b2 * 0x40 + cont_bits b3) # s))
             else None
         | _ \<Rightarrow> None)
      else None)"

section \<open>Response builder\<close>

definition response_ok :: "bytes \<Rightarrow> bytes \<Rightarrow> bytes" where
  "response_ok body mimetype =
     join CRLF [''HTTP/1.1 200 OK'', ''Content-Type: '' @ mimetype, [], body]"

definition response_method_not_allowed :: bytes where
  "response_method_not_allowed =
     join CRLF [''HTTP/1.1 405 Method Not Allowed'', ''Content-Type: text/html'', [],
                ''<html><h1>The request method is not allowed...'', ''</h1></html>'']"

definition response_not_found :: bytes where
  "response_not_found =
     join CRLF [''HTTP/1.1 404 Not Found'', ''Content-Type: text/plain'', [],
                ''Error encountered while visiting'']"

section \<open>Request parser\<close>

definition parse_request :: "pystr \<Rightarrow> py_error + pystr" where
  "parse_request request =
     (if \<not> str_contains (ustr ''GET'') request then Inl NotImplementedError
      else getitem (py_split request) 1)"

section \<open>Path resolver\<close>

text \<open>
  What the operating system and the \<open>mimetypes\<close> table answer is a parameter of the
  model. A path names nothing, a regular file, a directory or something else (a FIFO, a
  socket, a device); reading a file and listing a directory can fail (\<open>None\<close>).
  \<open>os.path.exists\<close> holds of every entry, \<open>os.path.isfile\<close> of regular files only.
\<close>

datatype fs_entry =
    RegularFile "bytes option"
  | Directory "pystr list option"
  | Special

record env =
  cwd :: pystr
  fs :: "pystr \<Rightarrow> fs_entry option"
  guess_type :: "pystr \<Rightarrow> pystr option"

text \<open>\<open>os.path.join\<close> with two arguments, on POSIX.\<close>

definition os_path_join :: "pystr \<Rightarrow> pystr \<Rightarrow> pystr" where
  "os_path_join a b =
     (if prefix (ustr ''/'') b then b
      else if a = [] \<or> suffix (ustr ''/'') a then a @ b
      else a @ ustr ''/'' @ b)"

definition webroot_path :: "env \<Rightarrow> pystr \<Rightarrow> pystr" where
  "webroot_path e path = os_path_join (cwd e) (ustr ''webroot'' @ path)"

text \<open>
  The body of the \<open>try\<close> in the file branch, with the exception that escapes it:
  \<open>guess_type(...)[0]\<close> is \<open>None\<close> for an unknown type and \<open>None.encode()\<close> raises
  \<open>AttributeError\<close>.
\<close>

definition read_file :: "env \<Rightarrow> pystr \<Rightarrow> bytes option \<Rightarrow> py_error + bytes \<times> bytes" where
  "read_file e wp rd =
     (case guess_type e wp of
        None \<Rightarrow> Inl AttributeError
      | Some t \<Rightarrow>
          (case utf8_encode t of
             None \<Rightarrow> Inl UnicodeEncodeError
           | Some mime_type \<Rightarrow>
               (case rd of
                  None \<Rightarrow> Inl OSError
                | Some content \<Rightarrow> Inr (content, mime_type))))"

definition list_directory :: "pystr list option \<Rightarrow> py_error + bytes \<times> bytes" where
  "list_directory ls =
     (case ls of
        None \<Rightarrow> Inl OSError
      | Some names \<Rightarrow>
          (case utf8_encode (join (ustr CRLF) names) of
             None \<Rightarrow> Inl UnicodeEncodeError
           | Some content \<Rightarrow> Inr (content, ''text/plain'')))"

definition response_path :: "env \<Rightarrow> pystr \<Rightarrow> py_error + bytes \<times> bytes" where
  "response_path e path =
     (case fs e (webroot_path e path) of
        None \<Rightarrow> Inl NameError
      | Some (RegularFile rd) \<Rightarrow>
          (case read_file e (webroot_path e path) rd of
             Inl _ \<Rightarrow> Inl NameError
           | Inr r \<Rightarrow> Inr r)
      | Some (Directory ls) \<Rightarrow> list_directory ls
      | Some Special \<Rightarrow> list_directory None)"

section \<open>Connection handler\<close>

text \<open>
  The inner \<open>try\<close> of the handler: the response to send, or the exception that neither
  \<open>except\<close> clause catches.
\<close>

definition build_response :: "env \<Rightarrow> pystr \<Rightarrow> py_error + bytes" where
  "build_response e request =
     (case (case parse_request request of
              Inl x \<Rightarrow> Inl x
            | Inr path \<Rightarrow>
                (case response_path e path of
                   Inl x \<Rightarrow> Inl x
                 | Inr (content, mimetype) \<Rightarrow> Inr (response_ok content mimetype))) of
        Inl NotImplementedError \<Rightarrow> Inr response_method_not_allowed
      | Inl NameError \<Rightarrow> Inr response_not_found
      | Inl x \<Rightarrow> Inl x
      | Inr response \<Rightarrow> Inr response)"

text \<open>
  A connection is what its peer, the network and the output streams do while it is
  handled: the results of the successive \<open>recv\<close> calls, whether \<open>sendall\<close>
  succeeds, and the exception, if any, of the two \<open>print\<close> calls inside the outer
  \<open>try\<close>: the one of line 134 on the log stream, and the one of line 144, which writes
  the request text to the standard output (a stream that cannot encode the text raises
  \<open>UnicodeEncodeError\<close>). After the listed results the peer sends nothing more:
  \<open>recv\<close> blocks, or returns \<open>b''\<close> each time once the peer has closed.
\<close>

datatype recv_event = Recv bytes | RecvError

record connection =
  incoming :: "recv_event list"
  send_ok :: bool
  log_error :: "py_error option"
  stdout_error :: "pystr \<Rightarrow> py_error option"

datatype recv_result = Blocked | Raised py_error | Complete pystr

text \<open>
  The read loop. It leaves only when the text read so far contains the header
  terminator or when \<open>recv\<close> or \<open>decode\<close> raises; with nothing more to read the
  text no longer changes and the loop goes on for ever.
\<close>

fun recv_loop :: "pystr \<Rightarrow> recv_event list \<Rightarrow> recv_result" where
  "recv_loop request [] = Blocked"
| "recv_loop request (RecvError # evs) = Raised OSError"
| "recv_loop request (Recv data # evs) =
     (case utf8_decode data of
        None \<Rightarrow> Raised UnicodeDecodeError
      | Some s \<Rightarrow>
          (if str_contains (ustr (CRLF @ CRLF)) (request @ s) then Complete (request @ s)
           else recv_loop (request @ s) evs))"

text \<open>
  What the handler does with the connection, in order: a response that \<open>sendall\<close> has
  written, the call of \<open>traceback.print_exc\<close> in the \<open>except\<close> clause for the
  exception caught, and the call of \<open>conn.close\<close>.
\<close>

datatype event = Sent bytes | Traceback py_error | Close

datatype 'a run = Hangs | Returns 'a

definition conn_sendall :: "connection \<Rightarrow> bytes \<Rightarrow> py_error + event list" where
  "conn_sendall c response = (if send_ok c then Inr [Sent response] else Inl OSError)"

text \<open>
  Lines 146 to 166: the response is built and sent. The result is the events this
  causes, or the exception raised.
\<close>

definition serve_request :: "env \<Rightarrow> connection \<Rightarrow> pystr \<Rightarrow> py_error + event list" where
  "serve_request e c request =
     (case build_response e request of
        Inl x \<Rightarrow> Inl x
      | Inr response \<Rightarrow> conn_sendall c response)"

text \<open>
  The outer \<open>try\<close> statement of the handler. Its body writes a log line, reads the
  request, prints it and serves it; it may never finish. An exception of any of these
  steps is caught by \<open>except Exception\<close>, which calls \<open>traceback.print_exc\<close>, and
  the \<open>finally\<close> clause closes the connection.
\<close>

definition try_body :: "env \<Rightarrow> connection \<Rightarrow> (py_error + event list) run" where
  "try_body e c =
     (case log_error c of
        Some x \<Rightarrow> Returns (Inl x)
      | None \<Rightarrow>
          (case recv_loop [] (incoming c) of
             Blocked \<Rightarrow> Hangs
           | Raised x \<Rightarrow> Returns (Inl x)
           | Complete request \<Rightarrow>
               (case stdout_error c request of
                  Some x \<Rightarrow> Returns (Inl x)
                | None \<Rightarrow> Returns (serve_request e c request))))"

definition handle_connection :: "env \<Rightarrow> connection \<Rightarrow> event list run" where
  "handle_connection e c =
     (case try_body e c of
        Hangs \<Rightarrow> Hangs
      | Returns (Inl x) \<Rightarrow> Returns ([Traceback x] @ [Close])
      | Returns (Inr evs) \<Rightarrow> Returns (evs @ [Close]))"

section \<open>Lines and tokens of the specification\<close>

text \<open>The part of a text before the first occurrence of a separator.\<close>

fun before_sep :: "'a list \<Rightarrow> 'a list \<Rightarrow> 'a list" where
  "before_sep sep [] = []"
| "before_sep sep (c # cs) = (if prefix sep (c # cs) then [] else c # before_sep sep cs)"

definition first_line :: "pystr \<Rightarrow> pystr" where
  "first_line request = before_sep (ustr CRLF) request"

definition status_line :: "bytes \<Rightarrow> bytes" where
  "status_line response = before_sep CRLF response"

text \<open>
  The parser as the specification words it: the second whitespace-delimited token of
  the first line. It is compared with \<open>parse_request\<close> below.
\<close>

definition spec_parse_request :: "pystr \<Rightarrow> py_error + pystr" where
  "spec_parse_request request =
     (if \<not> str_contains (ustr ''GET'') request then Inl NotImplementedError
      else getitem (py_split (first_line request)) 1)"

section \<open>A sample environment\<close>

text \<open>
  A small POSIX-like file system for the concrete cases: a tree of named entries, and
  path lookup that walks the components of a path from the root, where \<open>..\<close> steps to
  the parent directory. The server runs in \<open>/srv\<close>, so its document root is
  \<open>/srv/webroot\<close>.
\<close>

fun split_on :: "'a \<Rightarrow> 'a list \<Rightarrow> 'a list list" where
  "split_on sep [] = [[]]"
| "split_on sep (c # cs) =
     (if c = sep then [] # split_on sep cs
      else (case split_on sep cs of [] \<Rightarrow> [[c]] | x # xs \<Rightarrow> (c # x) # xs))"

fun walk :: "(pystr list \<Rightarrow> fs_entry option) \<Rightarrow> pystr list \<Rightarrow> pystr list \<Rightarrow> fs_entry option" where
  "walk tree loc [] = tree loc"
| "walk tree loc (c # cs) =
     (case tree loc of
        Some (Directory _) \<Rightarrow>
          (if c = [] \<or> c = ustr ''.'' then walk tree loc cs
           else if c = ustr ''..'' then walk tree (butlast loc) cs
           else walk tree (loc @ [c]) cs)
      | _ \<Rightarrow> None)"

definition sample_tree :: "pystr list \<Rightarrow> fs_entry option" where
  "sample_tree loc =
     (if loc = [] then Some (Directory (Some [ustr ''srv'']))
      else if loc = [ustr ''srv''] then
        Some (Directory (Some [ustr ''webroot'', ustr ''secret.txt'']))
      else if loc = [ustr ''srv'', ustr ''secret.txt''] then
        Some (RegularFile (Some ''top secret''))
      else if loc = [ustr ''srv'', ustr ''webroot''] then
        Some (Directory (Some [ustr ''index.html'', ustr ''images'', ustr ''notes'',
                               ustr ''locked.txt'', ustr ''private'', ustr ''odd'']))
      else if loc = [ustr ''srv'', ustr ''webroot'', ustr ''index.html''] then
        Some (RegularFile (Some ''<html></html>''))
      else if loc = [ustr ''srv'', ustr ''webroot'', ustr ''images''] then
        Some (Directory (Some []))
      else if loc = [ustr ''srv'', ustr ''webroot'', ustr ''notes''] then
        Some (RegularFile (Some ''remember the milk''))
      else if loc = [ustr ''srv'', ustr ''webroot'', ustr ''locked.txt''] then
        Some (RegularFile None)
      else if loc = [ustr ''srv'', ustr ''webroot'', ustr ''private''] then
        Some (Directory None)
      else if loc = [ustr ''srv'', ustr ''webroot'', ustr ''odd''] then
        Some (Directory (Some [[0xDCFF]]))
      else None)"

definition sample_fs :: "pystr \<Rightarrow> fs_entry option" where
  "sample_fs p = walk sample_tree [] (split_on (of_char CHR ''/'') p)"

definition sample_guess_type :: "pystr \<Rightarrow> pystr option" where
  "sample_guess_type p =
     (if suffix (ustr ''.html'') p then Some (ustr ''text/html'')
      else if suffix (ustr ''.txt'') p then Some (ustr ''text/plain'')
      else if suffix (ustr ''.png'') p then Some (ustr ''image/png'')
      else None)"

definition sample_env :: env where
  "sample_env = \<lparr>cwd = ustr ''/srv'', fs = sample_fs, guess_type = sample_guess_type\<rparr>"

text \<open>
  A connection on which every write succeeds, and one that moreover delivers the given
  request text in one piece.
\<close>

definition quiet :: "recv_event list \<Rightarrow> connection" where
  "quiet evs =
     \<lparr>incoming = evs, send_ok = True, log_error = None, stdout_error = (\<lambda>request. None)\<rparr>"

definition one_shot :: "bytes \<Rightarrow> connection" where
  "one_shot data = quiet [Recv data]"

section \<open>Auxiliary facts\<close>

text \<open>The octet constructor agrees with the library's conversion.\<close>

lemma byte_char_of: "byte n = char_of n"
  by (simp add: byte_def char_of_def bit_iff_odd)

text \<open>\<open>str_contains\<close> is the substring relation.\<close>

lemma str_contains_iff: "str_contains needle hay \<longleftrightarrow> (\<exists>p s. hay = p @ needle @ s)"
proof (induction hay)
  case Nil
  show ?case by auto
next
  case (Cons c cs)
  show ?case
  proof
    assume "str_contains needle (c # cs)"
    then consider "prefix needle (c # cs)" | "str_contains needle cs" by auto
    then show "\<exists>p s. c # cs = p @ needle @ s"
    proof cases
      case 1
      then obtain s where "c # cs = needle @ s" by (auto simp: prefix_def)
      then have "c # cs = [] @ needle @ s" by simp
      then show ?thesis by blast
    next
      case 2
      with Cons.IH obtain p s where "cs = p @ needle @ s" by blast
      then have "c # cs = (c # p) @ needle @ s" by simp
      then show ?thesis by blast
    qed
  next
    assume "\<exists>p s. c # cs = p @ needle @ s"
    then obtain p s where eq: "c # cs = p @ needle @ s" by blast
    show "str_contains needle (c # cs)"
    proof (cases p)
      case Nil
      with eq have "prefix needle (c # cs)" by (simp add: prefix_def)
      then show ?thesis by simp
    next
      case (Cons a p')
      with eq have "cs = p' @ needle @ s" by simp
      with Cons.IH have "str_contains needle cs" by blast
      then show ?thesis by simp
    qed
  qed
qed

lemma split_from_append_space:
  "py_isspace w \<Longrightarrow> split_from cur (a @ w # b) = split_from cur a @ split_from [] b"
  by (induction a arbitrary: cur) auto

lemma before_sep_decompose:
  "\<exists>rest. xs = before_sep sep xs @ rest \<and> (rest = [] \<or> prefix sep rest)"
proof (induction xs)
  case Nil
  show ?case by simp
next
  case (Cons c cs)
  show ?case
  proof (cases "prefix sep (c # cs)")
    case True
    then show ?thesis by auto
  next
    case False
    with Cons.IH show ?thesis by auto
  qed
qed

lemma py_split_first_line:
  "\<exists>more. py_split request = py_split (first_line request) @ more"
proof -
  obtain rest where d: "request = first_line request @ rest"
    and r: "rest = [] \<or> prefix (ustr CRLF) rest"
    using before_sep_decompose [of request "ustr CRLF"] by (auto simp: first_line_def)
  from r show ?thesis
  proof
    assume "rest = []"
    with d have "first_line request = request" by simp
    then show ?thesis by simp
  next
    assume "prefix (ustr CRLF) rest"
    then obtain rest' where "rest = 13 # 10 # rest'"
      by (auto simp: prefix_def ustr_def CRLF_def)
    with d have "request = first_line request @ 13 # (10 # rest')" by simp
    moreover have "py_isspace 13" by (simp add: py_isspace_def)
    ultimately have "py_split request = py_split (first_line request) @ split_from [] (10 # rest')"
      unfolding py_split_def using split_from_append_space [of 13 "[]" "first_line request" "10 # rest'"]
      by simp
    then show ?thesis by blast
  qed
qed


lemma status_line_not_found: "status_line response_not_found = ''HTTP/1.1 404 Not Found''"
  by (simp add: status_line_def response_not_found_def CRLF_def)



lemma handle_connection_complete:
  "log_error c = None \<Longrightarrow> recv_loop [] (incoming c) = Complete request \<Longrightarrow>
   stdout_error c request = None \<Longrightarrow>
   handle_connection e c =
     (case build_response e request of
        Inl x \<Rightarrow> Returns [Traceback x, Close]
      | Inr r \<Rightarrow> if send_ok c then Returns [Sent r, Close] else Returns [Traceback OSError, Close])"
  by (simp add: handle_connection_def try_body_def serve_request_def conn_sendall_def
      split: sum.splits)

text \<open>A request text that the standard output refuses gets no response.\<close>

lemma handle_connection_print_fails:
  "log_error c = None \<Longrightarrow> recv_loop [] (incoming c) = Complete request \<Longrightarrow>
   stdout_error c request = Some x \<Longrightarrow>
   handle_connection e c = Returns [Traceback x, Close]"
  by (simp add: handle_connection_def try_body_def)


lemma utf8_encode_append:
  "utf8_encode (a @ b) =
     (case utf8_encode a of
        None \<Rightarrow> None
      | Some x \<Rightarrow> (case utf8_encode b of None \<Rightarrow> None | Some y \<Rightarrow> Some (x @ y)))"
  by (induction a) (auto split: option.splits)

lemma utf8_encode_CRLF: "utf8_encode (ustr CRLF) = Some CRLF"
  by (simp add: ustr_def CRLF_def utf8_encode_cp_def byte_def)

lemma utf8_encode_join:
  "list_all2 (\<lambda>n b. utf8_encode n = Some b) names encoded \<Longrightarrow>
   utf8_encode (join (ustr CRLF) names) = Some (join CRLF encoded)"
proof (induction names encoded rule: list_all2_induct)
  case Nil
  show ?case by simp
next
  case (Cons n ns b bs)
  show ?case
  proof (cases ns)
    case Nil
    with Cons show ?thesis by simp
  next
    case (Cons n' ns')
    with Cons.hyps(2) obtain b' bs' where "bs = b' # bs'"
      by (auto simp: list_all2_Cons1)
    with Cons Cons.hyps(1) Cons.IH show ?thesis
      by (simp add: utf8_encode_append utf8_encode_CRLF)
  qed
qed

lemma str_contains_append: "str_contains needle a \<Longrightarrow> str_contains needle (a @ b)"
proof -
  assume "str_contains needle a"
  then obtain p s where "a = p @ needle @ s" by (auto simp: str_contains_iff)
  then have "a @ b = p @ needle @ (s @ b)" by simp
  then show ?thesis unfolding str_contains_iff by blast
qed

text \<open>
  When the read loop never ends: every read succeeds and decodes, and the text read
  never contains the header terminator.
\<close>

lemma recv_loop_blocked:
  "\<not> str_contains (ustr (CRLF @ CRLF)) request \<Longrightarrow>
   recv_loop request evs = Blocked \<longleftrightarrow>
     (\<exists>texts. map (\<lambda>ev. case ev of Recv data \<Rightarrow> utf8_decode data | RecvError \<Rightarrow> None) evs =
               map Some texts \<and>
        \<not> str_contains (ustr (CRLF @ CRLF)) (request @ concat texts))"
proof (induction evs arbitrary: request)
  case Nil
  then show ?case by simp
next
  case (Cons ev evs)
  show ?case
  proof (cases ev)
    case RecvError
    then show ?thesis by auto
  next
    case (Recv data)
    show ?thesis
    proof (cases "utf8_decode data")
      case None
      with Recv show ?thesis by auto
    next
      case (Some s)
      show ?thesis
      proof (cases "str_contains (ustr (CRLF @ CRLF)) (request @ s)")
        case True
        have "str_contains (ustr (CRLF @ CRLF)) ((request @ s) @ concat ts)" for ts
          using True by (rule str_contains_append)
        with Recv Some True show ?thesis by (auto simp: map_eq_Cons_conv)
      next
        case False
        from Cons.IH [OF False] Recv Some False show ?thesis
          by (auto simp: map_eq_Cons_conv Cons_eq_map_conv)
      qed
    qed
  qed
qed

text \<open>The tokens of \<open>split\<close> are non-empty and free of whitespace, and together they
  are the non-whitespace characters of the text.\<close>

lemma split_from_tokens:
  "\<forall>c\<in>set cur. \<not> py_isspace c \<Longrightarrow> t \<in> set (split_from cur s) \<Longrightarrow>
   t \<noteq> [] \<and> (\<forall>c\<in>set t. \<not> py_isspace c)"
proof (induction s arbitrary: cur)
  case Nil
  then show ?case by (auto split: if_splits)
next
  case (Cons a s)
  show ?case
  proof (cases "py_isspace a")
    case True
    with Cons.prems(2) have "t = cur \<and> cur \<noteq> [] \<or> t \<in> set (split_from [] s)"
      by (auto split: if_splits)
    then show ?thesis
      using Cons.IH [of "[]"] Cons.prems(1) by auto
  next
    case False
    with Cons.prems have "t \<in> set (split_from (cur @ [a]) s)"
      and "\<forall>c\<in>set (cur @ [a]). \<not> py_isspace c"
      by auto
    then show ?thesis
      using Cons.IH [of "cur @ [a]"] by blast
  qed
qed

lemma split_from_concat:
  "concat (split_from cur s) = cur @ filter (\<lambda>c. \<not> py_isspace c) s"
  by (induction s arbitrary: cur) auto

text \<open>Decoding undoes encoding.\<close>

lemma recombine: "(q::nat) div 0x40 * (0x40 * k) + q mod 0x40 * k = q * k"
proof -
  have "(q div 0x40 * 0x40 + q mod 0x40) * k = q * k"
    by (simp only: div_mult_mod_eq)
  then show ?thesis
    by (simp only: add_mult_distrib mult.assoc)
qed

lemma recombine3: "c div 0x1000 * 0x1000 + (c div 0x40 mod 0x40) * 0x40 + c mod 0x40 = (c::nat)"
proof -
  have "c div 0x1000 = c div 0x40 div 0x40" by (simp add: div_mult2_eq)
  then have "c div 0x1000 * 0x1000 + (c div 0x40 mod 0x40) * 0x40 = c div 0x40 * 0x40"
    using recombine [of "c div 0x40" "0x40"] by simp
  then show ?thesis by simp
qed

lemma recombine4: "c div 0x40000 * 0x40000 + (c div 0x1000 mod 0x40) * 0x1000 +
               (c div 0x40 mod 0x40) * 0x40 + c mod 0x40 = (c::nat)"
proof -
  have "c div 0x40000 = c div 0x1000 div 0x40" by (simp add: div_mult2_eq)
  then have "c div 0x40000 * 0x40000 + (c div 0x1000 mod 0x40) * 0x1000 = c div 0x1000 * 0x1000"
    using recombine [of "c div 0x1000" "0x1000"] by simp
  then show ?thesis using recombine3 [of c] by simp
qed

lemma of_char_byte: "(of_char (byte n) :: nat) = n mod 256"
  by (simp add: byte_char_of)

lemma utf8_decode_encode_cp:
  assumes "utf8_encode_cp c = Some bs"
  shows "utf8_decode (bs @ rest) =
           (case utf8_decode rest of None \<Rightarrow> None | Some s \<Rightarrow> Some (c # s))"
proof -
  consider (one) "c < 0x80" | (two) "0x80 \<le> c" "c < 0x800"
    | (three) "0x800 \<le> c" "c < 0x10000" "\<not> (0xD800 \<le> c \<and> c \<le> 0xDFFF)"
    | (four) "0x10000 \<le> c" "c < 0x110000"
    using assms by (auto simp: utf8_encode_cp_def split: if_splits)
  then show ?thesis
  proof cases
    case one
    with assms show ?thesis
      by (auto simp: utf8_encode_cp_def of_char_byte split: option.splits)
  next
    case two
    then have d: "c div 0x40 < 0x20" "2 \<le> c div 0x40" by auto
    have m: "c mod 0x40 < 0x40" by simp
    have r: "c div 0x40 * 0x40 + c mod 0x40 = c" by simp
    from two assms have bs: "bs = [byte (0xC0 + c div 0x40), byte (0x80 + c mod 0x40)]"
      by (auto simp: utf8_encode_cp_def)
    have b0: "(of_char (byte (0xC0 + c div 0x40)) :: nat) = 0xC0 + c div 0x40"
      using d by (simp add: of_char_byte)
    have b1: "(of_char (byte (0x80 + c mod 0x40)) :: nat) = 0x80 + c mod 0x40"
      using m by (simp add: of_char_byte)
    show ?thesis
      unfolding bs using d m r by (cases "utf8_decode rest") (simp_all add: b0 b1 is_cont_def cont_bits_def)
  next
    case three
    then have d: "c div 0x1000 < 0x10" by auto
    have m1: "c div 0x40 mod 0x40 < 0x40" and m2: "c mod 0x40 < 0x40" by simp_all
    have r: "c div 0x1000 * 0x1000 + (c div 0x40 mod 0x40) * 0x40 + c mod 0x40 = c"
      by (rule recombine3)
    from three assms have bs: "bs = [byte (0xE0 + c div 0x1000), byte (0x80 + c div 0x40 mod 0x40),
              byte (0x80 + c mod 0x40)]"
      by (auto simp: utf8_encode_cp_def)
    have b0: "(of_char (byte (0xE0 + c div 0x1000)) :: nat) = 0xE0 + c div 0x1000"
      using d by (simp add: of_char_byte)
    have b1: "(of_char (byte (0x80 + c div 0x40 mod 0x40)) :: nat) = 0x80 + c div 0x40 mod 0x40"
      using m1 by (simp add: of_char_byte)
    have b2: "(of_char (byte (0x80 + c mod 0x40)) :: nat) = 0x80 + c mod 0x40"
      using m2 by (simp add: of_char_byte)
    show ?thesis
      unfolding bs using d m1 m2 three by (cases "utf8_decode rest") (simp_all add: b0 b1 b2 is_cont_def cont_bits_def r)
  next
    case four
    then have d: "c div 0x40000 < 0x5" by auto
    have m1: "c div 0x1000 mod 0x40 < 0x40" and m2: "c div 0x40 mod 0x40 < 0x40"
      and m3: "c mod 0x40 < 0x40" by simp_all
    have r: "c div 0x40000 * 0x40000 + (c div 0x1000 mod 0x40) * 0x1000 +
               (c div 0x40 mod 0x40) * 0x40 + c mod 0x40 = c"
      by (rule recombine4)
    from four assms have bs: "bs = [byte (0xF0 + c div 0x40000), byte (0x80 + c div 0x1000 mod 0x40),
              byte (0x80 + c div 0x40 mod 0x40), byte (0x80 + c mod 0x40)]"
      by (auto simp: utf8_encode_cp_def)
    have b0: "(of_char (byte (0xF0 + c div 0x40000)) :: nat) = 0xF0 + c div 0x40000"
      using d by (simp add: of_char_byte)
    have b1: "(of_char (byte (0x80 + c div 0x1000 mod 0x40)) :: nat) = 0x80 + c div 0x1000 mod 0x40"
      using m1 by (simp add: of_char_byte)
    have b2: "(of_char (byte (0x80 + c div 0x40 mod 0x40)) :: nat) = 0x80 + c div 0x40 mod 0x40"
      using m2 by (simp add: of_char_byte)
    have b3: "(of_char (byte (0x80 + c mod 0x40)) :: nat) = 0x80 + c mod 0x40"
      using m3 by (simp add: of_char_byte)
    show ?thesis
      unfolding bs using d m1 m2 m3 four by (cases "utf8_decode rest") (simp_all add: b0 b1 b2 b3 is_cont_def cont_bits_def r)
  qed
qed

lemma utf8_decode_encode: "utf8_encode s = Some bs \<Longrightarrow> utf8_decode bs = Some s"
proof (induction s arbitrary: bs)
  case Nil
  then show ?case by simp
next
  case (Cons c cs)
  then obtain b rest where "utf8_encode_cp c = Some b" "utf8_encode cs = Some rest" "bs = b @ rest"
    by (auto split: option.splits)
  with Cons.IH [of rest] utf8_decode_encode_cp [of c b rest] show ?case by simp
qed

text \<open>Definitions unfolded when a concrete case is evaluated.\<close>

lemmas sample_defs =
  sample_env_def sample_fs_def sample_tree_def sample_guess_type_def
  webroot_path_def os_path_join_def ustr_def suffix_to_prefix

lemmas parse_defs = parse_request_def py_split_def py_isspace_def getitem_def

section \<open>Response builder: properties\<close>

text \<open>
  C4. For every body and every mimetype, \<open>response_ok\<close> returns exactly the bytes
  \<open>HTTP/1.1 200 OK\<close>, CRLF, \<open>Content-Type: \<close> followed by the mimetype, CRLF, CRLF and the
  body; for the body \<open><html></html>\<close> and the mimetype \<open>text/html\<close> this is the response
  of the specification's scenario.
\<close>

theorem response_ok_bytes:
  "response_ok body mimetype =
     ''HTTP/1.1 200 OK'' @ CRLF @ ''Content-Type: '' @ mimetype @ CRLF @ CRLF @ body \<and>
   response_ok ''<html></html>'' ''text/html'' =
     ''HTTP/1.1 200 OK'' @ CRLF @ ''Content-Type: text/html'' @ CRLF @ CRLF @ ''<html></html>''"
  by (simp add: response_ok_def)

text \<open>
  C6. \<open>response_not_found\<close> is exactly the fixed 404 message, and it is the response of
  the handler for every request whose parsed path names nothing under the document root:
  the one it builds, and the one it writes when the request is complete and neither the
  log writes nor \<open>sendall\<close> raise.
\<close>

theorem response_not_found_bytes:
  "response_not_found =
     ''HTTP/1.1 404 Not Found'' @ CRLF @ ''Content-Type: text/plain'' @ CRLF @ CRLF @
     ''Error encountered while visiting'' \<and>
   (parse_request request = Inr path \<and> fs e (webroot_path e path) = None \<longrightarrow>
      response_path e path = Inl NameError \<and>
      build_response e request = Inr response_not_found \<and>
      (log_error c = None \<and> recv_loop [] (incoming c) = Complete request \<and>
       stdout_error c request = None \<and> send_ok c \<longrightarrow>
         handle_connection e c = Returns [Sent response_not_found, Close]))"
proof -
  have a: "response_not_found =
     ''HTTP/1.1 404 Not Found'' @ CRLF @ ''Content-Type: text/plain'' @ CRLF @ CRLF @
     ''Error encountered while visiting''"
    by (simp add: response_not_found_def)
  have b: "response_path e path = Inl NameError" if "fs e (webroot_path e path) = None"
    using that by (simp add: response_path_def)
  have c: "build_response e request = Inr response_not_found"
    if "parse_request request = Inr path" "fs e (webroot_path e path) = None"
    using that b by (simp add: build_response_def)
  have d: "handle_connection e c = Returns [Sent response_not_found, Close]"
    if "parse_request request = Inr path" "fs e (webroot_path e path) = None"
       "log_error c = None" "recv_loop [] (incoming c) = Complete request"
       "stdout_error c request = None" "send_ok c"
    using that c by (simp add: handle_connection_complete)
  from a b c d show ?thesis by blast
qed

text \<open>
  The request for \<open>/missing.txt\<close> in the sample environment.
\<close>

theorem response_not_found_bytes_witness:
  "parse_request (ustr ''GET /missing.txt HTTP/1.1'' @ ustr CRLF @ ustr CRLF) = Inr (ustr ''/missing.txt'') \<and>
   fs sample_env (webroot_path sample_env (ustr ''/missing.txt'')) = None \<and>
   handle_connection sample_env (one_shot (''GET /missing.txt HTTP/1.1'' @ CRLF @ CRLF)) =
     Returns [Sent response_not_found, Close]"
  using response_not_found_bytes
    [of "ustr ''GET /missing.txt HTTP/1.1'' @ ustr CRLF @ ustr CRLF" "ustr ''/missing.txt''" sample_env
        "one_shot (''GET /missing.txt HTTP/1.1'' @ CRLF @ CRLF)"]
  by (simp add: one_shot_def quiet_def parse_request_def py_split_def py_isspace_def getitem_def sample_env_def
      sample_fs_def sample_tree_def webroot_path_def os_path_join_def ustr_def suffix_to_prefix CRLF_def)

section \<open>Request parser: properties\<close>

text \<open>
  C1, as amended. For every request text in which \<open>GET\<close> occurs and which has at least
  two whitespace-delimited tokens, \<open>parse_request\<close> returns the second token of the whole
  text; this is the second token of the first line whenever the first line has two tokens
  itself. In particular the request line \<open>GET /foo.html HTTP/1.1\<close> gives \<open>/foo.html\<close>.
\<close>

theorem parse_request_second_token:
  "(str_contains (ustr ''GET'') request \<and> 2 \<le> length (py_split request) \<longrightarrow>
      parse_request request = Inr (py_split request ! 1) \<and>
      (2 \<le> length (py_split (first_line request)) \<longrightarrow>
         parse_request request = Inr (py_split (first_line request) ! 1))) \<and>
   parse_request (ustr ''GET /foo.html HTTP/1.1'' @ ustr CRLF @ ustr CRLF) = Inr (ustr ''/foo.html'')"
proof -
  have whole: "parse_request request = Inr (py_split request ! 1)"
    if "str_contains (ustr ''GET'') request" "2 \<le> length (py_split request)"
    using that by (simp add: parse_request_def getitem_def)
  have line: "py_split request ! 1 = py_split (first_line request) ! 1"
    if "2 \<le> length (py_split (first_line request))"
  proof -
    obtain more where "py_split request = py_split (first_line request) @ more"
      using py_split_first_line by blast
    with that show ?thesis by (simp add: nth_append)
  qed
  have ex: "parse_request (ustr ''GET /foo.html HTTP/1.1'' @ ustr CRLF @ ustr CRLF) = Inr (ustr ''/foo.html'')"
    by (simp add: parse_request_def py_split_def py_isspace_def getitem_def ustr_def CRLF_def)
  from whole line ex show ?thesis by simp
qed

text \<open>
  A request with a header line after the request line.
\<close>

theorem parse_request_second_token_witness:
  "str_contains (ustr ''GET'') (ustr ''GET /a.txt HTTP/1.1'' @ ustr CRLF @ ustr ''Host: x'' @ ustr CRLF @ ustr CRLF) \<and>
   2 \<le> length (py_split (first_line (ustr ''GET /a.txt HTTP/1.1'' @ ustr CRLF @ ustr ''Host: x'' @ ustr CRLF @ ustr CRLF))) \<and>
   parse_request (ustr ''GET /a.txt HTTP/1.1'' @ ustr CRLF @ ustr ''Host: x'' @ ustr CRLF @ ustr CRLF) = Inr (ustr ''/a.txt'')"
  using parse_request_second_token
    [of "ustr ''GET /a.txt HTTP/1.1'' @ ustr CRLF @ ustr ''Host: x'' @ ustr CRLF @ ustr CRLF"]
  by (simp add: py_split_def py_isspace_def first_line_def ustr_def CRLF_def)

text \<open>
  C1 as first stated speaks of the second token of the first line. When the first line
  holds the method alone, it has no second token, and \<open>parse_request\<close> returns the first
  token of the next line.
\<close>

theorem parse_request_first_line_counterexample:
  "str_contains (ustr ''GET'') (ustr ''GET'' @ ustr CRLF @ ustr ''/foo.html HTTP/1.1'' @ ustr CRLF @ ustr CRLF) \<and>
   2 \<le> length (py_split (ustr ''GET'' @ ustr CRLF @ ustr ''/foo.html HTTP/1.1'' @ ustr CRLF @ ustr CRLF)) \<and>
   parse_request (ustr ''GET'' @ ustr CRLF @ ustr ''/foo.html HTTP/1.1'' @ ustr CRLF @ ustr CRLF) = Inr (ustr ''/foo.html'') \<and>
   first_line (ustr ''GET'' @ ustr CRLF @ ustr ''/foo.html HTTP/1.1'' @ ustr CRLF @ ustr CRLF) = ustr ''GET'' \<and>
   py_split (ustr ''GET'') = [ustr ''GET''] \<and>
   spec_parse_request (ustr ''GET'' @ ustr CRLF @ ustr ''/foo.html HTTP/1.1'' @ ustr CRLF @ ustr CRLF) = Inl IndexError"
  by (simp add: parse_request_def spec_parse_request_def py_split_def py_isspace_def getitem_def
      first_line_def ustr_def CRLF_def)

text \<open>
  C2. \<open>parse_request\<close> raises \<open>NotImplementedError\<close> exactly when \<open>GET\<close> occurs nowhere
  in the request text, a substring test; the handler then answers with the 405 message,
  which begins with \<open>HTTP/1.1 405 Method Not Allowed\<close>: it is the response built, and
  the one written when the request is complete and neither the log writes nor
  \<open>sendall\<close> raise.
\<close>

theorem unsupported_method_iff:
  "(parse_request request = Inl NotImplementedError \<longleftrightarrow> \<not> str_contains (ustr ''GET'') request) \<and>
   (str_contains (ustr ''GET'') request \<longleftrightarrow> (\<exists>p s. request = p @ ustr ''GET'' @ s)) \<and>
   (\<not> str_contains (ustr ''GET'') request \<longrightarrow>
      build_response e request = Inr response_method_not_allowed \<and>
      prefix ''HTTP/1.1 405 Method Not Allowed'' response_method_not_allowed \<and>
      (log_error c = None \<and> recv_loop [] (incoming c) = Complete request \<and>
       stdout_error c request = None \<and> send_ok c \<longrightarrow>
         handle_connection e c = Returns [Sent response_method_not_allowed, Close]))"
proof -
  have a: "parse_request request = Inl NotImplementedError \<longleftrightarrow> \<not> str_contains (ustr ''GET'') request"
    by (simp add: parse_request_def getitem_def)
  have b: "build_response e request = Inr response_method_not_allowed"
    if "\<not> str_contains (ustr ''GET'') request"
    using that by (simp add: build_response_def parse_request_def)
  have c: "prefix ''HTTP/1.1 405 Method Not Allowed'' response_method_not_allowed"
    by (simp add: response_method_not_allowed_def)
  have d: "handle_connection e c = Returns [Sent response_method_not_allowed, Close]"
    if "\<not> str_contains (ustr ''GET'') request" "log_error c = None"
       "recv_loop [] (incoming c) = Complete request" "stdout_error c request = None" "send_ok c"
    using that b by (simp add: handle_connection_complete)
  from a b c d str_contains_iff [of "ustr ''GET''" request] show ?thesis by blast
qed

text \<open>
  The specification's \<open>POST\<close> scenario.
\<close>

theorem unsupported_method_iff_witness:
  "\<not> str_contains (ustr ''GET'') (ustr ''POST /index.html HTTP/1.1'' @ ustr CRLF @ ustr CRLF) \<and>
   parse_request (ustr ''POST /index.html HTTP/1.1'' @ ustr CRLF @ ustr CRLF) = Inl NotImplementedError \<and>
   handle_connection sample_env (one_shot (''POST /index.html HTTP/1.1'' @ CRLF @ CRLF)) =
     Returns [Sent response_method_not_allowed, Close]"
  using unsupported_method_iff
    [of "ustr ''POST /index.html HTTP/1.1'' @ ustr CRLF @ ustr CRLF" sample_env
        "one_shot (''POST /index.html HTTP/1.1'' @ CRLF @ CRLF)"]
  by (simp add: one_shot_def quiet_def ustr_def CRLF_def)

text \<open>
  C10. A request text that contains \<open>GET\<close> but has fewer than two tokens makes
  \<open>parse_request\<close> raise \<open>IndexError\<close>, which neither \<open>except\<close> clause of the handler
  catches: for a complete request the handler reports a failure, writes nothing and
  closes the connection; the failure reported is the \<open>IndexError\<close> when the print of
  the request has succeeded.
\<close>

theorem parse_request_index_error:
  "(str_contains (ustr ''GET'') request \<and> length (py_split request) < 2 \<longrightarrow>
      parse_request request = Inl IndexError \<and>
      build_response e request = Inl IndexError \<and>
      (log_error c = None \<and> recv_loop [] (incoming c) = Complete request \<longrightarrow>
         (\<exists>x. handle_connection e c = Returns [Traceback x, Close]) \<and>
         (stdout_error c request = None \<longrightarrow>
            handle_connection e c = Returns [Traceback IndexError, Close]))) \<and>
   parse_request (ustr ''GET'' @ ustr CRLF @ ustr CRLF) = Inl IndexError"
proof -
  have a: "parse_request request = Inl IndexError"
    if "str_contains (ustr ''GET'') request" "length (py_split request) < 2"
    using that by (simp add: parse_request_def getitem_def)
  have b: "build_response e request = Inl IndexError"
    if "str_contains (ustr ''GET'') request" "length (py_split request) < 2"
    using a [OF that] by (simp add: build_response_def)
  have c: "handle_connection e c = Returns [Traceback IndexError, Close]"
    if "str_contains (ustr ''GET'') request" "length (py_split request) < 2"
       "log_error c = None" "recv_loop [] (incoming c) = Complete request"
       "stdout_error c request = None"
    using b [OF that(1,2)] that(3,4,5) by (simp add: handle_connection_complete)
  have d: "\<exists>x. handle_connection e c = Returns [Traceback x, Close]"
    if "str_contains (ustr ''GET'') request" "length (py_split request) < 2"
       "log_error c = None" "recv_loop [] (incoming c) = Complete request"
  proof (cases "stdout_error c request")
    case None
    with c [OF that] show ?thesis by blast
  next
    case (Some x)
    with that(3,4) show ?thesis by (simp add: handle_connection_print_fails)
  qed
  have f: "parse_request (ustr ''GET'' @ ustr CRLF @ ustr CRLF) = Inl IndexError"
    by (simp add: parse_defs ustr_def CRLF_def)
  from a b c d f show ?thesis by blast
qed

text \<open>
  The request that consists of the method alone.
\<close>

theorem parse_request_index_error_witness:
  "str_contains (ustr ''GET'') (ustr ''GET'' @ ustr CRLF @ ustr CRLF) \<and>
   length (py_split (ustr ''GET'' @ ustr CRLF @ ustr CRLF)) < 2 \<and>
   recv_loop [] (incoming (one_shot (''GET'' @ CRLF @ CRLF))) =
     Complete (ustr ''GET'' @ ustr CRLF @ ustr CRLF) \<and>
   handle_connection sample_env (one_shot (''GET'' @ CRLF @ CRLF)) =
     Returns [Traceback IndexError, Close]"
  using parse_request_index_error
    [of "ustr ''GET'' @ ustr CRLF @ ustr CRLF" sample_env "one_shot (''GET'' @ CRLF @ CRLF)"]
  by (simp add: one_shot_def quiet_def py_split_def py_isspace_def ustr_def CRLF_def)

section \<open>Path resolver: properties\<close>

text \<open>
  C3. \<open>response_path\<close> raises \<open>NameError\<close> exactly when the path names nothing, or names a
  regular file whose type cannot be determined (\<open>guess_type\<close> knows none, or gives one
  that cannot be encoded) or whose content cannot be read. Both failures give the same
  error, which the handler answers with the 404 message.
\<close>

theorem response_path_not_found_iff:
  "(response_path e path = Inl NameError \<longleftrightarrow>
      fs e (webroot_path e path) = None \<or>
      (\<exists>rd. fs e (webroot_path e path) = Some (RegularFile rd) \<and>
         (guess_type e (webroot_path e path) = None \<or>
          (\<exists>t. guess_type e (webroot_path e path) = Some t \<and> utf8_encode t = None) \<or>
          rd = None))) \<and>
   (parse_request request = Inr path \<and> response_path e path = Inl NameError \<longrightarrow>
      build_response e request = Inr response_not_found \<and>
      status_line response_not_found = ''HTTP/1.1 404 Not Found'')"
proof -
  have a: "response_path e path = Inl NameError \<longleftrightarrow>
      fs e (webroot_path e path) = None \<or>
      (\<exists>rd. fs e (webroot_path e path) = Some (RegularFile rd) \<and>
         (guess_type e (webroot_path e path) = None \<or>
          (\<exists>t. guess_type e (webroot_path e path) = Some t \<and> utf8_encode t = None) \<or>
          rd = None))"
    by (auto simp: response_path_def read_file_def list_directory_def
        split: option.splits fs_entry.splits sum.splits)
  have b: "build_response e request = Inr response_not_found"
    if "parse_request request = Inr path" "response_path e path = Inl NameError"
    using that by (simp add: build_response_def)
  from a b status_line_not_found show ?thesis by blast
qed

text \<open>
  A file without an extension in the sample environment.
\<close>

theorem response_path_not_found_iff_witness:
  "parse_request (ustr ''GET /notes HTTP/1.1'' @ ustr CRLF @ ustr CRLF) = Inr (ustr ''/notes'') \<and>
   fs sample_env (webroot_path sample_env (ustr ''/notes'')) =
     Some (RegularFile (Some ''remember the milk'')) \<and>
   guess_type sample_env (webroot_path sample_env (ustr ''/notes'')) = None \<and>
   response_path sample_env (ustr ''/notes'') = Inl NameError \<and>
   build_response sample_env (ustr ''GET /notes HTTP/1.1'' @ ustr CRLF @ ustr CRLF) =
     Inr response_not_found"
  using response_path_not_found_iff
    [of sample_env "ustr ''/notes''" "ustr ''GET /notes HTTP/1.1'' @ ustr CRLF @ ustr CRLF"]
  by (simp add: parse_defs sample_defs CRLF_def)

text \<open>
  C5, as amended. For every existing directory whose listing can be read and whose
  entry names can all be encoded, \<open>response_path\<close> returns the encoded names joined by
  CRLF in the order of the listing, with the type \<open>text/plain\<close>; for an empty directory the
  content is empty.
\<close>

theorem response_path_directory_listing:
  "(fs e (webroot_path e path) = Some (Directory (Some names)) \<and>
    list_all2 (\<lambda>n b. utf8_encode n = Some b) names encoded \<longrightarrow>
      response_path e path = Inr (join CRLF encoded, ''text/plain'')) \<and>
   (fs e (webroot_path e path) = Some (Directory (Some [])) \<longrightarrow>
      response_path e path = Inr ([], ''text/plain''))"
  by (auto simp: response_path_def list_directory_def utf8_encode_join)

text \<open>
  The parent of the document root, reached with \<open>/..\<close>, and an empty directory.
\<close>

theorem response_path_directory_listing_witness:
  "fs sample_env (webroot_path sample_env (ustr ''/..'')) =
     Some (Directory (Some [ustr ''webroot'', ustr ''secret.txt''])) \<and>
   list_all2 (\<lambda>n b. utf8_encode n = Some b)
     [ustr ''webroot'', ustr ''secret.txt''] [''webroot'', ''secret.txt''] \<and>
   response_path sample_env (ustr ''/..'') =
     Inr (''webroot'' @ CRLF @ ''secret.txt'', ''text/plain'') \<and>
   fs sample_env (webroot_path sample_env (ustr ''/images'')) = Some (Directory (Some [])) \<and>
   response_path sample_env (ustr ''/images'') = Inr ([], ''text/plain'')"
  using response_path_directory_listing
    [of sample_env "ustr ''/..''" "[ustr ''webroot'', ustr ''secret.txt'']"
        "[''webroot'', ''secret.txt'']"]
    response_path_directory_listing [of sample_env "ustr ''/images''" "[]" "[]"]
  by (simp add: sample_defs utf8_encode_cp_def byte_def)

text \<open>
  C5 as first stated speaks of every existing directory. A directory that cannot be
  listed, and one with an entry whose name is a lone surrogate (as \<open>os.listdir\<close> gives
  for a file name that is not UTF-8), make \<open>response_path\<close> raise instead.
\<close>

theorem directory_listing_counterexample:
  "fs sample_env (webroot_path sample_env (ustr ''/private'')) = Some (Directory None) \<and>
   response_path sample_env (ustr ''/private'') = Inl OSError \<and>
   fs sample_env (webroot_path sample_env (ustr ''/odd'')) = Some (Directory (Some [[0xDCFF]])) \<and>
   response_path sample_env (ustr ''/odd'') = Inl UnicodeEncodeError"
  by (simp add: response_path_def list_directory_def sample_defs utf8_encode_cp_def)

text \<open>
  C7. \<open>response_path\<close> looks up the working directory joined with \<open>webroot\<close> followed by
  the request path as it stands, and its result depends on the file system at that
  location only. Segments \<open>..\<close> are not removed, so that a path can name a file outside
  the document root: in the sample environment \<open>/../secret.txt\<close> is the file
  \<open>/srv/secret.txt\<close>.
\<close>

theorem response_path_lookup_location:
  "webroot_path e path = os_path_join (cwd e) (ustr ''webroot'') @ path \<and>
   (cwd e \<noteq> [] \<and> \<not> suffix (ustr ''/'') (cwd e) \<longrightarrow>
      webroot_path e path = cwd e @ ustr ''/webroot'' @ path) \<and>
   (cwd e' = cwd e \<and>
    fs e' (webroot_path e path) = fs e (webroot_path e path) \<and>
    guess_type e' (webroot_path e path) = guess_type e (webroot_path e path) \<longrightarrow>
      response_path e' path = response_path e path) \<and>
   webroot_path sample_env (ustr ''/../secret.txt'') = ustr ''/srv/webroot/../secret.txt'' \<and>
   response_path sample_env (ustr ''/../secret.txt'') = Inr (''top secret'', ''text/plain'') \<and>
   fs sample_env (ustr ''/srv/secret.txt'') = Some (RegularFile (Some ''top secret'')) \<and>
   \<not> prefix (ustr ''/srv/webroot/'') (ustr ''/srv/secret.txt'')"
proof -
  have a: "webroot_path e path = os_path_join (cwd e) (ustr ''webroot'') @ path"
    by (simp add: webroot_path_def os_path_join_def ustr_def)
  have b: "webroot_path e path = cwd e @ ustr ''/webroot'' @ path"
    if "cwd e \<noteq> []" "\<not> suffix (ustr ''/'') (cwd e)"
    using that by (simp add: webroot_path_def os_path_join_def ustr_def)
  have c: "response_path e' path = response_path e path"
    if "cwd e' = cwd e" "fs e' (webroot_path e path) = fs e (webroot_path e path)"
      "guess_type e' (webroot_path e path) = guess_type e (webroot_path e path)"
  proof -
    from that(1) have "webroot_path e' path = webroot_path e path"
      by (simp add: webroot_path_def)
    with that(2,3) show ?thesis
      by (simp add: response_path_def read_file_def split: option.splits fs_entry.splits)
  qed
  have d: "webroot_path sample_env (ustr ''/../secret.txt'') = ustr ''/srv/webroot/../secret.txt''"
    by (simp add: sample_defs)
  have f: "response_path sample_env (ustr ''/../secret.txt'') = Inr (''top secret'', ''text/plain'')"
    by (simp add: response_path_def read_file_def sample_defs utf8_encode_cp_def byte_def)
  have g: "fs sample_env (ustr ''/srv/secret.txt'') = Some (RegularFile (Some ''top secret''))"
    by (simp add: sample_defs)
  have h: "\<not> prefix (ustr ''/srv/webroot/'') (ustr ''/srv/secret.txt'')"
    by (simp add: ustr_def)
  from a b c d f g h show ?thesis by blast
qed

text \<open>
  Two environments that agree at the location of \<open>/index.html\<close>.
\<close>

theorem response_path_lookup_location_witness:
  "cwd (sample_env\<lparr>fs := (\<lambda>p. if p = ustr ''/srv/webroot/index.html'' then fs sample_env p else None)\<rparr>) \<noteq> [] \<and>
   \<not> suffix (ustr ''/'') (cwd sample_env) \<and>
   webroot_path sample_env (ustr ''/index.html'') = ustr ''/srv/webroot/index.html'' \<and>
   response_path (sample_env\<lparr>fs := (\<lambda>p. if p = ustr ''/srv/webroot/index.html'' then fs sample_env p else None)\<rparr>)
       (ustr ''/index.html'') =
     response_path sample_env (ustr ''/index.html'') \<and>
   response_path sample_env (ustr ''/index.html'') = Inr (''<html></html>'', ''text/html'')"
  using response_path_lookup_location
    [of sample_env "ustr ''/index.html''"
        "sample_env\<lparr>fs := (\<lambda>p. if p = ustr ''/srv/webroot/index.html'' then fs sample_env p else None)\<rparr>"]
  by (simp add: response_path_def read_file_def sample_defs utf8_encode_cp_def byte_def)

section \<open>Connection handler: properties\<close>



text \<open>
  C9, as amended. When the read loop ends, or is not reached because the log write
  before it raises, the handler writes at most one response and then closes the
  connection: either one response and the close, or the report of an unexpected failure
  and the close. When no step raises (the log write, the reads, the print of the request,
  building the response and the write), exactly that response is written before the
  close. When the read loop does not end, the handler does not return.
\<close>

theorem handler_one_response_then_close:
  "(log_error c = None \<and> recv_loop [] (incoming c) = Blocked \<longrightarrow>
      handle_connection e c = Hangs) \<and>
   (log_error c \<noteq> None \<or> recv_loop [] (incoming c) \<noteq> Blocked \<longrightarrow>
      (\<exists>r. handle_connection e c = Returns [Sent r, Close]) \<or>
      (\<exists>x. handle_connection e c = Returns [Traceback x, Close])) \<and>
   (log_error c = None \<and> recv_loop [] (incoming c) = Complete request \<and>
    stdout_error c request = None \<and> build_response e request = Inr r \<and> send_ok c \<longrightarrow>
      handle_connection e c = Returns [Sent r, Close])"
  by (auto simp: handle_connection_def try_body_def serve_request_def conn_sendall_def
      split: option.splits recv_result.splits sum.splits)

text \<open>
  A complete request, one whose terminator never arrives, and one that the standard
  output cannot print.
\<close>

theorem handler_one_response_then_close_witness:
  "recv_loop [] (incoming (one_shot (''GET /index.html HTTP/1.1'' @ CRLF @ CRLF))) =
     Complete (ustr ''GET /index.html HTTP/1.1'' @ ustr CRLF @ ustr CRLF) \<and>
   handle_connection sample_env (one_shot (''GET /index.html HTTP/1.1'' @ CRLF @ CRLF)) =
     Returns [Sent (response_ok ''<html></html>'' ''text/html''), Close] \<and>
   recv_loop [] (incoming (quiet [Recv (''GET / HTTP/1.1'' @ CRLF)])) = Blocked \<and>
   handle_connection sample_env (quiet [Recv (''GET / HTTP/1.1'' @ CRLF)]) = Hangs \<and>
   handle_connection sample_env
     ((one_shot (''GET /index.html HTTP/1.1'' @ CRLF @ CRLF))
        \<lparr>stdout_error := (\<lambda>request. Some UnicodeEncodeError)\<rparr>) =
     Returns [Traceback UnicodeEncodeError, Close]"
  using handler_one_response_then_close
    [of "one_shot (''GET /index.html HTTP/1.1'' @ CRLF @ CRLF)" sample_env]
    handler_one_response_then_close
    [of "quiet [Recv (''GET / HTTP/1.1'' @ CRLF)]" sample_env]
    handler_one_response_then_close
    [of "(one_shot (''GET /index.html HTTP/1.1'' @ CRLF @ CRLF))
           \<lparr>stdout_error := (\<lambda>request. Some UnicodeEncodeError)\<rparr>" sample_env]
  by (simp add: handle_connection_def try_body_def one_shot_def quiet_def serve_request_def
      conn_sendall_def build_response_def parse_defs response_path_def read_file_def sample_defs
      utf8_encode_cp_def byte_def CRLF_def response_ok_def)

text \<open>
  C9 as first stated speaks of every accepted connection. A peer that sends the request
  line and closes leaves the handler reading for ever: nothing is written and the
  connection is not closed.
\<close>

theorem handler_hangs_counterexample:
  "handle_connection sample_env
     (quiet [Recv (''GET /index.html HTTP/1.1'' @ CRLF), Recv [], Recv []]) = Hangs"
  by (simp add: handle_connection_def try_body_def quiet_def ustr_def CRLF_def)

end
